theory Spec2Isabelle
  imports Main "HOL-Library.Sublist"
begin

section \<open>Python strings and exceptions\<close>

text \<open>
  A Python \<open>str\<close> is a sequence of Unicode code points and \<open>len\<close> counts code points,
  so a string is a list of code points here, each a natural number. \<open>ustr\<close> writes
  an ASCII literal as such a list; a code point that cannot stand in a literal
  (a quote, a newline, an accented letter, an emoji) is written as its number.
\<close>

type_synonym pystr = "nat list"

definition ustr :: "string \<Rightarrow> pystr" where
  "ustr cs = map of_char cs"

text \<open>
  \<open>s[:k]\<close>: a slice from the start up to index \<open>k\<close>; a negative \<open>k\<close> counts from the
  end, and the bounds are clipped to the string.
\<close>

definition slice_to :: "'a list \<Rightarrow> int \<Rightarrow> 'a list" where
  "slice_to s k = (if k < 0 then take (nat (int (length s) + k)) s else take (nat k) s)"

text \<open>\<open>str.isspace\<close> on one code point: the Unicode white space characters.\<close>

definition is_space :: "nat \<Rightarrow> bool" where
  "is_space c =
     ((9 \<le> c \<and> c \<le> 13) \<or> (28 \<le> c \<and> c \<le> 32) \<or> c = 133 \<or> c = 160 \<or> c = 5760
      \<or> (8192 \<le> c \<and> c \<le> 8202) \<or> c = 8232 \<or> c = 8233 \<or> c = 8239 \<or> c = 8287
      \<or> c = 12288)"

text \<open>\<open>s.strip()\<close>: white space removed at both ends.\<close>

definition strip :: "pystr \<Rightarrow> pystr" where
  "strip s = rev (dropWhile is_space (rev (dropWhile is_space s)))"

text \<open>A string with no white space at either end.\<close>

definition stripped :: "pystr \<Rightarrow> bool" where
  "stripped s = (s = [] \<or> (\<not> is_space (hd s) \<and> \<not> is_space (last s)))"

text \<open>\<open>sub in s\<close> on strings: \<open>sub\<close> occurs in \<open>s\<close> as a contiguous run.\<close>

fun contains :: "'a list \<Rightarrow> 'a list \<Rightarrow> bool" where
  "contains sub [] = (sub = [])"
| "contains sub (c # cs) = (prefix sub (c # cs) \<or> contains sub cs)"

text \<open>
  \<open>s.split(sep)\<close>: the pieces of \<open>s\<close> between the occurrences of \<open>sep\<close>, found from
  left to right without overlap. The source only splits on literal, non-empty
  separators (Python raises ValueError on an empty one; here the string then comes
  back whole).
\<close>

fun split_from :: "'a list \<Rightarrow> 'a list \<Rightarrow> 'a list \<Rightarrow> 'a list list" where
  "split_from sep acc [] = [rev acc]"
| "split_from sep acc (c # cs) =
     (if sep \<noteq> [] \<and> prefix sep (c # cs)
      then rev acc # split_from sep [] (drop (length sep - 1) cs)
      else split_from sep (c # acc) cs)"

definition split_py :: "'a list \<Rightarrow> 'a list \<Rightarrow> 'a list list" where
  "split_py sep s = split_from sep [] s"

text \<open>\<open>sep.join(parts)\<close>.\<close>

fun join :: "'a list \<Rightarrow> 'a list list \<Rightarrow> 'a list" where
  "join sep [] = []"
| "join sep [p] = p"
| "join sep (p # q # ps) = p @ sep @ join sep (q # ps)"

text \<open>
  \<open>str.lower\<close>, on the Basic Latin and Latin-1 blocks, where it maps one code point to
  one code point. Code points outside these blocks are left as they are: this covers
  caseless symbols such as the ribbon of the configured identity, not the capital
  letters of other scripts.
\<close>

definition lower_cp :: "nat \<Rightarrow> nat" where
  "lower_cp c =
     (if 65 \<le> c \<and> c \<le> 90 then c + 32
      else if 192 \<le> c \<and> c \<le> 222 \<and> c \<noteq> 215 then c + 32
      else c)"

definition lower :: "pystr \<Rightarrow> pystr" where
  "lower s = map lower_cp s"

text \<open>\<open>str(i)\<close> for a non-negative integer: its decimal digits.\<close>

fun str_nat :: "nat \<Rightarrow> pystr" where
  "str_nat n = (if n < 10 then [48 + n] else str_nat (n div 10) @ [48 + n mod 10])"

text \<open>
  The exceptions the modelled code raises or meets, all instances of \<open>Exception\<close>.
  \<open>APIError\<close> stands for whatever the completion client raises; \<open>Exception\<close> carries
  the message of a plain \<open>raise Exception(...)\<close>.
\<close>

datatype exn =
    JSONDecodeError
  | AttributeError
  | TypeError
  | IndexError
  | NoSuchElementException
  | TimeoutException
  | APIError pystr
  | Exception pystr

text \<open>\<open>xs[i]\<close> on a list: IndexError out of range, negative indices from the end.\<close>

definition py_index :: "'a list \<Rightarrow> int \<Rightarrow> exn + 'a" where
  "py_index xs i =
     (let j = (if i < 0 then int (length xs) + i else i)
      in if j < 0 \<or> int (length xs) \<le> j then Inl IndexError else Inr (xs ! nat j))"

section \<open>scraper.py: the page\<close>

text \<open>
  The browser is outside the program. A page is what the driver's lookups return when
  the code issues them: \<open>find_element\<close> gives an element or raises
  NoSuchElementException (\<open>None\<close> here), a wait gives an element or times out
  (\<open>None\<close>), \<open>find_elements\<close> gives a list. An element the code only scrolls to or
  clicks is a handle.
\<close>

type_synonym element = nat

text \<open>The profile link of a comment: its \<open>href\<close> attribute (possibly absent) and its text.\<close>

record link_element =
  link_href :: "pystr option"
  link_text :: pystr

text \<open>
  A comment block (\<open>DivCommentContentWrapper\<close>) with the results of the four lookups
  made inside it: the profile link, the display name paragraph (its text), the comment
  paragraph (its text) and the reply button.
\<close>

record comment_block =
  username_element :: "link_element option"
  display_name_element :: "pystr option"
  comment_text_element :: "pystr option"
  reply_button :: "element option"

record page =
  current_url :: pystr
  comment_blocks :: "comment_block list"
  reply_input_primary :: "element option"
  reply_input_fallback :: "element option"
  clipboard_available :: bool
  publish_buttons :: "element list"

text \<open>An extracted comment: the dict \<open>{username, comment_text, comment_element}\<close>.\<close>

record comment_data =
  username :: pystr
  comment_text :: pystr
  comment_element :: comment_block

section \<open>scraper.py: extraction\<close>

text \<open>\<open>excluded_username = "soeur bonplan "\<close> followed by the ribbon emoji U+1F380.\<close>

definition excluded_username :: pystr where
  "excluded_username = ustr ''soeur bonplan '' @ [127872]"

text \<open>
  The identity of a block, as the loop body of \<open>_extract_comments\<close> resolves it: from
  the profile link (the handle after the last \<open>/@\<close> of its target, up to a \<open>?\<close>, else
  the link's text), overridden by a non-empty display name.
\<close>

definition username_from_link :: "link_element \<Rightarrow> pystr" where
  "username_from_link a =
     (case link_href a of
        None \<Rightarrow> strip (link_text a)
      | Some href \<Rightarrow>
          if href \<noteq> [] \<and> contains (ustr ''/@'') href
          then ustr ''@'' @ hd (split_py (ustr ''?'') (last (split_py (ustr ''/@'') href)))
          else strip (link_text a))"

definition resolve_username :: "comment_block \<Rightarrow> pystr" where
  "resolve_username b =
     (let username = (case username_element b of None \<Rightarrow> [] | Some a \<Rightarrow> username_from_link a)
      in case display_name_element b of
           None \<Rightarrow> username
         | Some t \<Rightarrow> (let display_name = strip t
                      in if display_name \<noteq> [] then display_name else username))"

text \<open>
  The loop of \<open>_extract_comments\<close> over the blocks found on the page: a block without
  comment text is skipped, a block of the excluded identity is skipped, any other block
  is appended to \<open>comments_data\<close>.
\<close>

fun extract_loop :: "comment_block list \<Rightarrow> comment_data list \<Rightarrow> comment_data list" where
  "extract_loop [] comments_data = comments_data"
| "extract_loop (b # bs) comments_data =
     (let username = resolve_username b
      in case comment_text_element b of
           None \<Rightarrow> extract_loop bs comments_data
         | Some t \<Rightarrow>
             (let comment_text = strip t
              in if strip (lower username) = lower excluded_username
                 then extract_loop bs comments_data
                 else extract_loop bs
                        (comments_data @
                         [\<lparr>username = username, comment_text = comment_text,
                           comment_element = b\<rparr>])))"

definition extract_comments :: "page \<Rightarrow> comment_data list" where
  "extract_comments p = extract_loop (comment_blocks p) []"

section \<open>scraper.py: replying\<close>

text \<open>What the driver is told to do, in order.\<close>

datatype action =
    Get pystr
  | ScrollIntoView element
  | Click element
  | Paste element pystr
  | SendKeys element pystr

text \<open>
  The search for the target block: the first block whose link text contains the
  identity, or whose link target contains the identity without its \<open>@\<close> signs. A block
  without a link, or whose link has no target when the text does not match, raises
  inside the \<open>try\<close> and is passed over.
\<close>

fun find_target :: "pystr \<Rightarrow> comment_block list \<Rightarrow> comment_block option" where
  "find_target uname [] = None"
| "find_target uname (block # blocks) =
     (case username_element block of
        None \<Rightarrow> find_target uname blocks
      | Some user_element \<Rightarrow>
          if contains uname (link_text user_element) then Some block
          else (case link_href user_element of
                  None \<Rightarrow> find_target uname blocks
                | Some href \<Rightarrow>
                    if contains (filter (\<lambda>c. c \<noteq> 64) uname) href then Some block
                    else find_target uname blocks))"

text \<open>The two selectors of the reply field, tried in order.\<close>

definition find_reply_input :: "page \<Rightarrow> element option" where
  "find_reply_input p =
     (case reply_input_primary p of
        Some e \<Rightarrow> Some e
      | None \<Rightarrow> reply_input_fallback p)"

text \<open>
  \<open>reply_to_comment(video_url, username, reply_text)\<close>: the outcome (an exception, or
  a normal return) and the actions performed on the driver up to there.
\<close>

definition reply_to_comment ::
  "page \<Rightarrow> pystr \<Rightarrow> pystr \<Rightarrow> pystr \<Rightarrow> (exn + unit) \<times> action list" where
  "reply_to_comment p video_url uname reply_text =
     (let nav = (if current_url p \<noteq> video_url then [Get video_url] else [])
      in case find_target uname (comment_blocks p) of
           None \<Rightarrow>
             (Inl (Exception (ustr ''Commentaire de '' @ uname @ ustr '' non trouv'' @ [233])),
              nav)
         | Some target_comment \<Rightarrow>
             (case reply_button target_comment of
                None \<Rightarrow> (Inl NoSuchElementException, nav)
              | Some rb \<Rightarrow>
                  (let opened = nav @ [ScrollIntoView rb, Click rb]
                   in case find_reply_input p of
                        None \<Rightarrow>
                          (Inl (Exception (ustr ''Champ de r'' @ [233] @ ustr ''ponse non trouv''
                                           @ [233])),
                           opened)
                      | Some reply_input \<Rightarrow>
                          (let typed = opened @ [ScrollIntoView reply_input, Click reply_input]
                                 @ [if clipboard_available p then Paste reply_input reply_text
                                    else SendKeys reply_input reply_text]
                           in if 2 \<le> length (publish_buttons p)
                              then (let publish_button = publish_buttons p ! 1
                                    in (Inr (),
                                        typed @ [ScrollIntoView publish_button,
                                                 Click publish_button]))
                              else (Inl (Exception (ustr ''Bouton publier non trouv'' @ [233])),
                                    typed)))))"


section \<open>ai\_handler.py: values and the completion client\<close>

text \<open>
  What \<open>json.loads\<close> returns: \<open>None\<close>, a bool, a number (an int or a float; the code
  never looks inside one), a string, a list, or a dict. A dict is an association list
  in insertion order, its keys distinct.
\<close>

datatype pyval =
    PNone
  | PBool bool
  | PNum int
  | PStr pystr
  | PList "pyval list"
  | PDict "(pystr \<times> pyval) list"

text \<open>\<open>obj.get(key, default)\<close>: only a dict has a \<open>get\<close>.\<close>

fun py_get :: "pyval \<Rightarrow> pystr \<Rightarrow> pyval \<Rightarrow> exn + pyval" where
  "py_get (PDict kvs) k d = Inr (case map_of kvs k of None \<Rightarrow> d | Some v \<Rightarrow> v)"
| "py_get _ k d = Inl AttributeError"

text \<open>
  \<open>for item in obj\<close>: a list gives its items, a dict its keys, a string its
  characters; anything else is not iterable.
\<close>

fun py_iter :: "pyval \<Rightarrow> exn + pyval list" where
  "py_iter (PList xs) = Inr xs"
| "py_iter (PDict kvs) = Inr (map (\<lambda>kv. PStr (fst kv)) kvs)"
| "py_iter (PStr s) = Inr (map (\<lambda>c. PStr [c]) s)"
| "py_iter _ = Inl TypeError"

text \<open>A list comprehension whose element expression may raise: the first failure ends it.\<close>

fun map_raise :: "('a \<Rightarrow> exn + 'b) \<Rightarrow> 'a list \<Rightarrow> exn + 'b list" where
  "map_raise f [] = Inr []"
| "map_raise f (x # xs) =
     (case f x of
        Inl e \<Rightarrow> Inl e
      | Inr y \<Rightarrow> (case map_raise f xs of Inl e \<Rightarrow> Inl e | Inr ys \<Rightarrow> Inr (y # ys)))"

text \<open>
  The request of \<open>client.chat.completions.create\<close>: the model name, the messages as
  (role, content) pairs and \<open>max_tokens\<close>. The temperature, the float constant 0.7, is
  not represented.
\<close>

record completion_request =
  request_model :: pystr
  request_messages :: "(pystr \<times> pystr) list"
  request_max_tokens :: int

text \<open>
  The generator object: its model name and its client. The client answers a request
  with an exception or with a response, of which the code reads
  \<open>choices[i].message.content\<close>: a response is the list of its choices' contents, each a
  string or \<open>None\<close>.
\<close>

record AIResponseGenerator =
  model :: pystr
  create :: "completion_request \<Rightarrow> exn + pystr option list"

section \<open>ai\_handler.py: the batch prompt\<close>

definition unlines :: "pystr list \<Rightarrow> pystr" where
  "unlines ls = concat (map (\<lambda>l. l @ [10]) ls)"

definition prompt_head :: "pystr \<Rightarrow> pystr \<Rightarrow> pystr" where
  "prompt_head video_title hashtags_str = unlines
     [ustr ''Tu es Copywriter GPT, un copywriter chaleureux et empathique pour TikTok. Tu r''
        @ [233] @ ustr ''ponds aux commentaires sur les vid'' @ [233] @ ustr ''os tiktok.'',
      [],
      ustr ''CONTEXTE DE LA VID'' @ [201] @ ustr ''O:'',
      ustr ''- Titre: '' @ [39] @ video_title @ [39],
      ustr ''- Hashtags: '' @ hashtags_str,
      ustr ''- Audience cible: Communaut'' @ [233],
      ustr ''- Objectif: Cr'' @ [233] @ ustr ''er de l'' @ [39]
        @ ustr ''engagement authentique et chaleureux'',
      [],
      ustr ''INSTRUCTIONS IMPORTANTES:'',
      ustr ''- R'' @ [233] @ ustr ''ponds '' @ [224]
        @ ustr '' chaque commentaire avec MAXIMUM 114 caract'' @ [232] @ ustr ''res'',
      ustr ''- Commence par '' @ [34] @ ustr ''Coucou [nom]'' @ [34] @ ustr '' ou simplement ''
        @ [34] @ ustr ''Hello'' @ [34] @ ustr '' si le nom est long'',
      ustr ''- Ton chaleureux, amical, comme une grande s'' @ [339] @ ustr ''ur bienveillante'',
      ustr ''- Ne donne JAMAIS de conseils m'' @ [233]
        @ ustr ''dicaux, juridiques ou religieux pr'' @ [233] @ ustr ''cis'',
      ustr ''- '' @ [201] @ ustr ''vite les questions ouvertes qui cr'' @ [233] @ ustr ''ent des d''
        @ [233] @ ustr ''bats'',
      ustr ''- Reste positive, encourageante et authentique'',
      ustr ''- Utilise des emojis appropri'' @ [233] @ ustr ''s mais avec mod'' @ [233]
        @ ustr ''ration'',
      [],
      ustr ''COMMENTAIRES '' @ [192] @ ustr '' TRAITER:'']"

definition prompt_example :: "pystr \<Rightarrow> pystr" where
  "prompt_example n =
     ustr ''        {'' @ [34] @ ustr ''comment_id'' @ [34] @ ustr '': '' @ n @ ustr '', '' @ [34]
       @ ustr ''username'' @ [34] @ ustr '': '' @ [34] @ ustr ''nom_utilisateur'' @ [34]
       @ ustr '', '' @ [34] @ ustr ''comment_text'' @ [34] @ ustr '': '' @ [34]
       @ ustr ''texte_commentaire'' @ [34] @ ustr '', '' @ [34] @ ustr ''chatgpt_response'' @ [34]
       @ ustr '': '' @ [34] @ ustr ''ta_r'' @ [233] @ ustr ''ponse_114_chars_max'' @ [34]
       @ ustr ''}''"

definition prompt_tail :: pystr where
  "prompt_tail = [10] @ unlines
     [[],
      ustr ''R'' @ [201] @ ustr ''PONSE ATTENDUE:'',
      ustr ''Retourne UNIQUEMENT un JSON valide avec ce format exact (sans markdown, sans backticks):'',
      ustr ''{'',
      ustr ''    '' @ [34] @ ustr ''responses'' @ [34] @ ustr '': ['',
      prompt_example (ustr ''1'') @ ustr '','',
      prompt_example (ustr ''2''),
      ustr ''    ]'',
      ustr ''}'',
      [],
      ustr ''RAPPEL CRITIQUE: Chaque r'' @ [233] @ ustr ''ponse doit faire MAXIMUM 114 caract''
        @ [232] @ ustr ''res!'']"

text \<open>The line added for the \<open>i\<close>-th comment, numbered from 1.\<close>

definition prompt_comment :: "nat \<Rightarrow> comment_data \<Rightarrow> pystr" where
  "prompt_comment i comment =
     [10] @ str_nat i @ ustr ''. Utilisateur: '' @ username comment @ ustr '' | Commentaire: ''
       @ [34] @ comment_text comment @ [34]"

text \<open>\<open>_build_batch_prompt(comments_data, video_title, hashtags)\<close>.\<close>

definition build_batch_prompt :: "comment_data list \<Rightarrow> pystr \<Rightarrow> pystr list \<Rightarrow> pystr" where
  "build_batch_prompt comments_data video_title hashtags =
     (let hashtags_str =
            (if hashtags \<noteq> [] then join (ustr '', '') hashtags else ustr ''Aucun hashtag'');
          prompt = prompt_head video_title hashtags_str;
          prompt = foldl (\<lambda>acc ic. acc @ prompt_comment (fst ic) (snd ic)) prompt
                     (enumerate 1 comments_data)
      in prompt @ prompt_tail)"

section \<open>ai\_handler.py: parsing and batch generation\<close>

text \<open>
  The fence removal of \<open>_parse_json_response\<close>: the text between a \<open>```json\<close> fence (else
  a bare \<open>```\<close> fence) and the next fence, stripped.
\<close>

definition fence :: pystr where
  "fence = ustr ''```''"

definition fence_json :: pystr where
  "fence_json = ustr ''```json''"

definition clean_response_text :: "pystr \<Rightarrow> exn + pystr" where
  "clean_response_text response_text =
     (let cleaned_text = strip response_text;
          unfenced =
            (if contains fence_json cleaned_text
             then (case py_index (split_py fence_json cleaned_text) 1 of
                     Inl e \<Rightarrow> Inl e
                   | Inr inner \<Rightarrow> py_index (split_py fence inner) 0)
             else if contains fence cleaned_text
             then (case py_index (split_py fence cleaned_text) 1 of
                     Inl e \<Rightarrow> Inl e
                   | Inr inner \<Rightarrow> py_index (split_py fence inner) 0)
             else Inr cleaned_text)
      in case unfenced of Inl e \<Rightarrow> Inl e | Inr t \<Rightarrow> Inr (strip t))"

text \<open>The reply of one item of the \<open>responses\<close> array, with its default.\<close>

definition item_response :: "pyval \<Rightarrow> exn + pyval" where
  "item_response item = py_get item (ustr ''chatgpt_response'') (PStr (ustr ''Hello! Merci ''))"

text \<open>
  \<open>_parse_json_response(response_text)\<close>. \<open>json.loads\<close> belongs to the standard library:
  it is the parameter \<open>loads\<close>, which gives the decoded value or \<open>None\<close> when it raises
  JSONDecodeError. The handler of the source logs that error and raises it again; every
  other exception passes through unhandled.
\<close>

definition parse_json_response :: "(pystr \<Rightarrow> pyval option) \<Rightarrow> pystr \<Rightarrow> exn + pyval list" where
  "parse_json_response loads response_text =
     (case clean_response_text response_text of
        Inl e \<Rightarrow> Inl e
      | Inr cleaned_text \<Rightarrow>
          (case loads cleaned_text of
             None \<Rightarrow> Inl JSONDecodeError
           | Some parsed_data \<Rightarrow>
               (case py_get parsed_data (ustr ''responses'') (PList []) of
                  Inl e \<Rightarrow> Inl e
                | Inr responses \<Rightarrow>
                    (case py_iter responses of
                       Inl e \<Rightarrow> Inl e
                     | Inr items \<Rightarrow> map_raise item_response items))))"

text \<open>The request that \<open>generate_batch_responses\<close> sends.\<close>

definition batch_request ::
  "AIResponseGenerator \<Rightarrow> comment_data list \<Rightarrow> pystr \<Rightarrow> pystr list \<Rightarrow> completion_request" where
  "batch_request self comments_data video_title hashtags =
     \<lparr>request_model = model self,
      request_messages =
        [(ustr ''system'', ustr ''Tu es un assistant qui retourne uniquement du JSON valide.''),
         (ustr ''user'', build_batch_prompt comments_data video_title hashtags)],
      request_max_tokens = 4000\<rparr>"

text \<open>
  The body of the \<open>try\<close> of \<open>generate_batch_responses\<close>: the call, the text
  \<open>response.choices[0].message.content.strip()\<close>, the parse.
\<close>

definition batch_try ::
  "AIResponseGenerator \<Rightarrow> (pystr \<Rightarrow> pyval option) \<Rightarrow> comment_data list \<Rightarrow> pystr \<Rightarrow> pystr list
     \<Rightarrow> exn + pyval list" where
  "batch_try self loads comments_data video_title hashtags =
     (case create self (batch_request self comments_data video_title hashtags) of
        Inl e \<Rightarrow> Inl e
      | Inr choices \<Rightarrow>
          (case py_index choices 0 of
             Inl e \<Rightarrow> Inl e
           | Inr content \<Rightarrow>
               (case content of
                  None \<Rightarrow> Inl AttributeError
                | Some t \<Rightarrow> parse_json_response loads (strip t))))"

definition placeholder :: pystr where
  "placeholder = ustr ''Merci pour ton commentaire''"

text \<open>
  \<open>generate_batch_responses(comments_data, video_title, hashtags)\<close>: the requests sent
  to the client, in order, and the outcome (an exception raised to the caller, or the
  list returned). The \<open>except Exception\<close> of the source turns every failure of the
  \<open>try\<close> body into one placeholder per comment.
\<close>

definition generate_batch_responses ::
  "AIResponseGenerator \<Rightarrow> (pystr \<Rightarrow> pyval option) \<Rightarrow> comment_data list \<Rightarrow> pystr \<Rightarrow> pystr list
     \<Rightarrow> completion_request list \<times> (exn + pyval list)" where
  "generate_batch_responses self loads comments_data video_title hashtags =
     (if comments_data = [] then ([], Inr [])
      else ([batch_request self comments_data video_title hashtags],
            (case batch_try self loads comments_data video_title hashtags of
               Inl e \<Rightarrow> Inr (map (\<lambda>_. PStr placeholder) comments_data)
             | Inr parsed_responses \<Rightarrow> Inr parsed_responses)))"

section \<open>ai\_handler.py: length enforcement\<close>

text \<open>\<open>validate_response_length(response, max_length=114)\<close>.\<close>

definition validate_response_length :: "pystr \<Rightarrow> int \<Rightarrow> bool" where
  "validate_response_length response max_length = (int (length response) \<le> max_length)"

text \<open>
  \<open>truncate_response(response, max_length=114)\<close>: the response itself when it fits,
  else its first \<open>max_length - 3\<close> code points followed by three dots.
\<close>

definition truncate_response :: "pystr \<Rightarrow> int \<Rightarrow> pystr" where
  "truncate_response response max_length =
     (if int (length response) \<le> max_length then response
      else slice_to response (max_length - 3) @ ustr ''...'')"

text \<open>The call with the default argument, \<open>truncate_response(response)\<close>.\<close>

definition truncate_response_default :: "pystr \<Rightarrow> pystr" where
  "truncate_response_default response = truncate_response response 114"


section \<open>database.py: the comments table\<close>

text \<open>
  A row of the table \<open>comments\<close>, one field per column. The status is the text the
  column holds; the two timestamps are points of an abstract clock.
\<close>

record comment_row =
  col_id :: int
  col_video_url :: pystr
  col_account_id :: int
  col_username :: pystr
  col_comment_text :: pystr
  col_ai_response :: pystr
  col_status :: pystr
  col_created_at :: nat
  col_updated_at :: nat

text \<open>\<open>SELECT * FROM comments WHERE id = ?\<close>, first row.\<close>

definition get_comment :: "comment_row list \<Rightarrow> int \<Rightarrow> comment_row option" where
  "get_comment tbl comment_id = find (\<lambda>c. col_id c = comment_id) tbl"

text \<open>
  \<open>SELECT * FROM comments WHERE id IN (...)\<close>. The failures of sqlite3 itself (an id
  outside 64 bits, more ids than the engine binds in one statement) are not
  represented: there the source raises, and the endpoints answer 500.
\<close>

definition get_comments_by_ids :: "comment_row list \<Rightarrow> int list \<Rightarrow> comment_row list" where
  "get_comments_by_ids tbl comment_ids = filter (\<lambda>c. col_id c \<in> set comment_ids) tbl"

text \<open>
  \<open>UPDATE comments SET status = ?, updated_at = CURRENT_TIMESTAMP WHERE id = ?\<close>, with
  the current time \<open>now\<close>.
\<close>

definition update_comment_status ::
  "nat \<Rightarrow> comment_row list \<Rightarrow> int \<Rightarrow> pystr \<Rightarrow> comment_row list" where
  "update_comment_status now tbl comment_id status =
     map (\<lambda>c. if col_id c = comment_id
               then c\<lparr>col_status := status, col_updated_at := now\<rparr>
               else c) tbl"

text \<open>
  \<open>UPDATE comments SET ai_response = ?, status = ?, updated_at = CURRENT_TIMESTAMP
  WHERE id = ?\<close>.
\<close>

definition update_comment_response ::
  "nat \<Rightarrow> comment_row list \<Rightarrow> int \<Rightarrow> pystr \<Rightarrow> pystr \<Rightarrow> comment_row list" where
  "update_comment_response now tbl comment_id new_response status =
     map (\<lambda>c. if col_id c = comment_id
               then c\<lparr>col_ai_response := new_response, col_status := status,
                      col_updated_at := now\<rparr>
               else c) tbl"

section \<open>app.py: moderation and publication requests\<close>

text \<open>A background task handed to \<open>background_tasks.add_task\<close>, with its arguments.\<close>

datatype task =
    process_video_scraping pystr int
  | process_comment_publishing "int list" int

text \<open>The state the endpoints work on: the comments table and the queued tasks.\<close>

record app_state =
  comments :: "comment_row list"
  background_tasks :: "task list"

text \<open>An \<open>HTTPException\<close>, by its status code; the detail text is not represented.\<close>

datatype http_exception = HTTPException int

record ValidateComment =
  comment_id :: int
  action :: pystr
  modified_response :: "pystr option"

record PublishRequest =
  comment_ids :: "int list"
  account_id :: int

text \<open>The answer of the moderation endpoint: \<open>{status, comment_id, action}\<close>.\<close>

record validate_answer =
  answer_status :: pystr
  answer_comment_id :: int
  answer_action :: pystr

text \<open>The answer of the publication endpoint: \<open>{status, message, comment_count}\<close>.\<close>

record publish_answer =
  publish_status :: pystr
  publish_message :: pystr
  publish_comment_count :: nat

text \<open>
  Both endpoints end in \<open>except Exception as e: raise HTTPException(status_code=500, ...)\<close>.
  An \<open>HTTPException\<close> is an \<open>Exception\<close>: the 404 and the 400 raised inside the \<open>try\<close>
  leave the endpoint as a 500.
\<close>

definition reraise_500 :: "http_exception + 'a \<Rightarrow> http_exception + 'a" where
  "reraise_500 r = (case r of Inl e \<Rightarrow> Inl (HTTPException 500) | Inr v \<Rightarrow> Inr v)"

text \<open>
  \<open>validate_comment(validation)\<close>, at time \<open>now\<close>: the answer or the exception, and the
  state afterwards. The third branch needs the action \<open>modify\<close> and a modified response
  that is neither \<open>None\<close> nor empty.
\<close>

definition validate_comment ::
  "nat \<Rightarrow> app_state \<Rightarrow> ValidateComment \<Rightarrow> (http_exception + validate_answer) \<times> app_state" where
  "validate_comment now st validation =
     (case get_comment (comments st) (comment_id validation) of
        None \<Rightarrow> (reraise_500 (Inl (HTTPException 404)), st)
      | Some comment \<Rightarrow>
          (let st' =
                 (if action validation = ustr ''validate''
                  then st\<lparr>comments := update_comment_status now (comments st)
                                          (comment_id validation) (ustr ''validated'')\<rparr>
                  else if action validation = ustr ''reject''
                  then st\<lparr>comments := update_comment_status now (comments st)
                                          (comment_id validation) (ustr ''rejected'')\<rparr>
                  else if action validation = ustr ''modify''
                  then (case modified_response validation of
                          None \<Rightarrow> st
                        | Some new_response \<Rightarrow>
                            if new_response \<noteq> []
                            then st\<lparr>comments := update_comment_response now (comments st)
                                                    (comment_id validation) new_response
                                                    (ustr ''validated'')\<rparr>
                            else st)
                  else st)
           in (reraise_500
                 (Inr \<lparr>answer_status = ustr ''success'',
                       answer_comment_id = comment_id validation,
                       answer_action = action validation\<rparr>),
               st')))"

text \<open>
  \<open>publish_comments(publish_data, background_tasks)\<close>: the rows named by the request are
  read, and a row whose status is not \<open>validated\<close> raises before the task is added.
\<close>

definition publish_comments ::
  "app_state \<Rightarrow> PublishRequest \<Rightarrow> (http_exception + publish_answer) \<times> app_state" where
  "publish_comments st publish_data =
     (let rows = get_comments_by_ids (comments st) (comment_ids publish_data);
          invalid_comments = filter (\<lambda>c. col_status c \<noteq> ustr ''validated'') rows
      in if invalid_comments \<noteq> []
         then (reraise_500 (Inl (HTTPException 400)), st)
         else (reraise_500
                 (Inr \<lparr>publish_status = ustr ''processing'',
                       publish_message =
                         ustr ''Publication de ''
                           @ str_nat (length (comment_ids publish_data))
                           @ ustr '' commentaires en cours'',
                       publish_comment_count = length (comment_ids publish_data)\<rparr>),
               st\<lparr>background_tasks := background_tasks st
                      @ [process_comment_publishing (comment_ids publish_data)
                           (account_id publish_data)]\<rparr>))"


section \<open>Sample inputs\<close>

text \<open>
  Concrete inputs for the checks at the end of each property: two extracted comments, a
  client whose request fails, a client that answers with a given text, and decoders
  that agree with \<open>json.loads\<close> on the texts the checks feed them (one JSON object,
  decoded; anything else here is no JSON).
\<close>

definition sample_block :: "pystr \<Rightarrow> pystr \<Rightarrow> comment_block" where
  "sample_block name body =
     \<lparr>username_element = Some \<lparr>link_href = Some (ustr ''https://www.tiktok.com/@user_1''),
                                link_text = ustr ''user_1''\<rparr>,
      display_name_element = Some name,
      comment_text_element = Some body,
      reply_button = Some 7\<rparr>"

definition sample_comments :: "comment_data list" where
  "sample_comments =
     [\<lparr>username = ustr ''fatima_dz'', comment_text = ustr ''Super video!'',
       comment_element = sample_block (ustr ''fatima_dz'') (ustr ''Super video!'')\<rparr>,
      \<lparr>username = ustr ''muslima_paris'', comment_text = ustr ''Merci pour le partage'',
       comment_element = sample_block (ustr ''muslima_paris'') (ustr ''Merci pour le partage'')\<rparr>]"

definition failing_client :: AIResponseGenerator where
  "failing_client =
     \<lparr>model = ustr ''gpt-4'', create = (\<lambda>request. Inl (APIError (ustr ''Connection error.'')))\<rparr>"

definition answering_client :: "pystr \<Rightarrow> AIResponseGenerator" where
  "answering_client content =
     \<lparr>model = ustr ''gpt-4'', create = (\<lambda>request. Inr [Some content])\<rparr>"

definition quoted :: "pystr \<Rightarrow> pystr" where
  "quoted s = [34] @ s @ [34]"

definition sample_json :: pystr where
  "sample_json =
     ustr ''{'' @ quoted (ustr ''responses'') @ ustr '': [''
       @ ustr ''{'' @ quoted (ustr ''comment_id'') @ ustr '': 1, ''
         @ quoted (ustr ''chatgpt_response'') @ ustr '': '' @ quoted (ustr ''Coucou Fatima'')
         @ ustr ''}, ''
       @ ustr ''{'' @ quoted (ustr ''comment_id'') @ ustr '': 2, ''
         @ quoted (ustr ''chatgpt_response'') @ ustr '': '' @ quoted (ustr ''Hello'')
         @ ustr ''}, ''
       @ ustr ''{'' @ quoted (ustr ''comment_id'') @ ustr '': 3}''
       @ ustr '']}''"

definition sample_parsed :: pyval where
  "sample_parsed =
     PDict [(ustr ''responses'',
             PList [PDict [(ustr ''comment_id'', PNum 1),
                           (ustr ''chatgpt_response'', PStr (ustr ''Coucou Fatima''))],
                    PDict [(ustr ''comment_id'', PNum 2),
                           (ustr ''chatgpt_response'', PStr (ustr ''Hello''))],
                    PDict [(ustr ''comment_id'', PNum 3)]])]"

definition sample_loads :: "pystr \<Rightarrow> pyval option" where
  "sample_loads t = (if t = sample_json then Some sample_parsed else None)"

definition sample_fenced :: pystr where
  "sample_fenced = ustr ''```json'' @ [10] @ sample_json @ [10] @ ustr ''```'' @ [10]"

definition sample_row :: "int \<Rightarrow> pystr \<Rightarrow> comment_row" where
  "sample_row i status =
     \<lparr>col_id = i, col_video_url = ustr ''https://www.tiktok.com/@a/video/1'',
      col_account_id = 1, col_username = ustr ''fatima_dz'',
      col_comment_text = ustr ''Super video!'', col_ai_response = ustr ''Coucou Fatima'',
      col_status = status, col_created_at = 10, col_updated_at = 10\<rparr>"

definition sample_state :: app_state where
  "sample_state =
     \<lparr>comments = [sample_row 1 (ustr ''validated''), sample_row 2 (ustr ''published''),
                  sample_row 3 (ustr ''validated'')],
      background_tasks = []\<rparr>"

definition sample_page :: "element list \<Rightarrow> page" where
  "sample_page buttons =
     \<lparr>current_url = ustr ''https://www.tiktok.com/'',
      comment_blocks = [sample_block (ustr ''Autre'') (ustr ''Bonjour'')],
      reply_input_primary = None,
      reply_input_fallback = Some 8,
      clipboard_available = True,
      publish_buttons = buttons\<rparr>"


definition fenced_greeting :: pystr where
  "fenced_greeting = ustr ''```'' @ [10] @ ustr ''Bonjour'' @ [10] @ ustr ''```''"

definition sample_items :: "pyval list" where
  "sample_items =
     [PDict [(ustr ''comment_id'', PNum 1),
             (ustr ''chatgpt_response'', PStr (ustr ''Coucou Fatima''))],
      PDict [(ustr ''comment_id'', PNum 2),
             (ustr ''chatgpt_response'', PStr (ustr ''Hello''))],
      PDict [(ustr ''comment_id'', PNum 3)]]"

definition backtick_json :: pystr where
  "backtick_json =
     ustr ''{'' @ quoted (ustr ''responses'') @ ustr '': [{''
       @ quoted (ustr ''chatgpt_response'') @ ustr '': '' @ quoted (ustr ''a```b'')
       @ ustr ''}]}''"

definition backtick_parsed :: pyval where
  "backtick_parsed =
     PDict [(ustr ''responses'',
             PList [PDict [(ustr ''chatgpt_response'', PStr (ustr ''a```b''))]])]"

definition backtick_loads :: "pystr \<Rightarrow> pyval option" where
  "backtick_loads t = (if t = backtick_json then Some backtick_parsed else None)"

definition operator_block :: comment_block where
  "operator_block = sample_block (ustr ''Soeur BonPlan '' @ [127872]) (ustr ''Merci'')"

definition fan_block :: comment_block where
  "fan_block = sample_block (ustr ''soeur bonplan '' @ [127872] @ ustr '' fan'') (ustr ''Bravo'')"

definition sample_thread :: page where
  "sample_thread =
     \<lparr>current_url = ustr ''https://www.tiktok.com/'',
      comment_blocks = [operator_block, fan_block],
      reply_input_primary = None,
      reply_input_fallback = None,
      clipboard_available = True,
      publish_buttons = []\<rparr>"

section \<open>Splitting: properties\<close>

text \<open>
  A split never gives an empty list, so the \<open>[-1]\<close> and \<open>[0]\<close> of the extraction always
  exist; and behind the \<open>in\<close> tests of the fence removal the piece \<open>[1]\<close> exists, so
  the cleaning never raises.
\<close>

lemma split_from_nonempty: "split_from sep acc s \<noteq> []"
  by (induction s arbitrary: acc) simp_all

lemma split_py_nonempty: "split_py sep s \<noteq> []"
  by (simp add: split_py_def split_from_nonempty)

lemma split_from_two_pieces:
  assumes "sep \<noteq> []" and "contains sep s"
  shows "2 \<le> length (split_from sep acc s)"
  using assms
proof (induction s arbitrary: acc)
  case Nil
  then show ?case by simp
next
  case (Cons c cs)
  show ?case
  proof (cases "prefix sep (c # cs)")
    case True
    have "1 \<le> length (split_from sep [] (drop (length sep - 1) cs))"
      using split_from_nonempty [of sep "[]" "drop (length sep - 1) cs"]
      by (cases "split_from sep [] (drop (length sep - 1) cs)") simp_all
    then show ?thesis using True Cons.prems(1) by simp
  next
    case False
    then have "contains sep cs" using Cons.prems(2) by simp
    then show ?thesis using False Cons.IH [OF Cons.prems(1)] by simp
  qed
qed

lemma py_index_first: "xs \<noteq> [] \<Longrightarrow> py_index xs 0 = Inr (hd xs)"
  by (cases xs) (simp_all add: py_index_def)

lemma py_index_second: "2 \<le> length xs \<Longrightarrow> py_index xs 1 = Inr (xs ! 1)"
  by (simp add: py_index_def)

lemma fence_nonempty: "fence \<noteq> []" "fence_json \<noteq> []"
  by (simp_all add: fence_def fence_json_def ustr_def)

lemma clean_response_text_total: "\<exists>cleaned. clean_response_text t = Inr cleaned"
  by (simp add: clean_response_text_def Let_def py_index_second py_index_first
      split_from_two_pieces split_py_def split_from_nonempty fence_nonempty)

section \<open>Length enforcement: properties\<close>

lemma length_ustr: "length (ustr cs) = length cs"
  by (simp add: ustr_def)

lemma truncate_default_short:
  "length r \<le> 114 \<Longrightarrow> truncate_response_default r = r"
  by (simp add: truncate_response_default_def truncate_response_def)

lemma truncate_default_long:
  "114 < length r \<Longrightarrow> truncate_response_default r = take 111 r @ ustr ''...''"
  by (simp add: truncate_response_default_def truncate_response_def slice_to_def)

lemma truncate_default_length_le:
  "length (truncate_response_default r) \<le> 114"
proof (cases "length r \<le> 114")
  case True
  then show ?thesis by (simp add: truncate_default_short)
next
  case False
  then have "114 < length r" by simp
  then show ?thesis by (simp add: truncate_default_long length_ustr)
qed

text \<open>
  C4. Truncation with the default ceiling of 114 is idempotent; it returns an input of
  at most 114 code points unchanged; and for a longer input it returns exactly 114 code
  points, the last three of which are the marker \<open>...\<close>.
\<close>

theorem truncate_response_contract:
  "truncate_response_default (truncate_response_default r) = truncate_response_default r
   \<and> (length r \<le> 114 \<longrightarrow> truncate_response_default r = r)
   \<and> (114 < length r \<longrightarrow>
        length (truncate_response_default r) = 114
        \<and> suffix (ustr ''...'') (truncate_response_default r))"
proof (intro conjI impI)
  show "truncate_response_default (truncate_response_default r) = truncate_response_default r"
    using truncate_default_length_le [of r] by (rule truncate_default_short)
next
  assume "length r \<le> 114"
  then show "truncate_response_default r = r" by (rule truncate_default_short)
next
  assume long: "114 < length r"
  then show "length (truncate_response_default r) = 114"
    by (simp add: truncate_default_long length_ustr)
next
  assume long: "114 < length r"
  then show "suffix (ustr ''...'') (truncate_response_default r)"
    by (simp add: truncate_default_long suffix_def)
qed

theorem truncate_response_contract_witness:
  "truncate_response_default (ustr ''Coucou Fatima'') = ustr ''Coucou Fatima''
   \<and> length (truncate_response_default (replicate 120 65)) = 114
   \<and> suffix (ustr ''...'') (truncate_response_default (replicate 120 65))
   \<and> truncate_response_default (truncate_response_default (replicate 120 65))
       = truncate_response_default (replicate 120 65)"
  using truncate_response_contract [of "ustr ''Coucou Fatima''"]
    truncate_response_contract [of "replicate 120 65"]
  by (simp add: length_ustr)

section \<open>Batch generation: properties\<close>

text \<open>
  C9. On the empty batch, batch generation returns the empty list at once: no request is
  sent to the client and nothing is raised.
\<close>

theorem empty_batch_returns_at_once:
  "generate_batch_responses self loads [] video_title hashtags = ([], Inr [])"
  by (simp add: generate_batch_responses_def)

lemma placeholders_replicate:
  "map (\<lambda>_. PStr placeholder) comments_data
   = replicate (length comments_data) (PStr placeholder)"
  by (simp add: map_replicate_const)

lemma batch_failure_degrades:
  assumes "comments_data \<noteq> []"
    and "batch_try self loads comments_data video_title hashtags = Inl e"
  shows "generate_batch_responses self loads comments_data video_title hashtags
         = ([batch_request self comments_data video_title hashtags],
            Inr (replicate (length comments_data) (PStr placeholder)))"
  using assms by (simp add: generate_batch_responses_def placeholders_replicate)

lemma batch_success_passes:
  assumes "comments_data \<noteq> []"
    and "batch_try self loads comments_data video_title hashtags = Inr rs"
  shows "generate_batch_responses self loads comments_data video_title hashtags
         = ([batch_request self comments_data video_title hashtags], Inr rs)"
  using assms by (simp add: generate_batch_responses_def)

lemma batch_try_text:
  assumes "create self (batch_request self comments_data video_title hashtags)
           = Inr (Some content # rest)"
  shows "batch_try self loads comments_data video_title hashtags
         = parse_json_response loads (strip content)"
  using assms by (simp add: batch_try_def py_index_def)

text \<open>
  C3. On a non-empty batch of N comments, when the \<open>try\<close> body fails with anything but
  a decode error (the request raising, a response without choices, no content, a decoded
  value of the wrong shape), batch generation returns N entries, each the fixed
  placeholder.
\<close>

theorem call_failure_gives_placeholders:
  assumes "comments_data \<noteq> []"
    and "batch_try self loads comments_data video_title hashtags = Inl e"
    and "e \<noteq> JSONDecodeError"
  shows "snd (generate_batch_responses self loads comments_data video_title hashtags)
         = Inr (replicate (length comments_data) (PStr placeholder))"
  using assms(1,2) by (simp add: batch_failure_degrades)

lemma failing_client_try:
  "batch_try failing_client loads cs t h = Inl (APIError (ustr ''Connection error.''))"
  by (simp add: batch_try_def failing_client_def)

theorem call_failure_gives_placeholders_witness:
  "sample_comments \<noteq> []
   \<and> batch_try failing_client sample_loads sample_comments (ustr ''Mes bons plans'') []
       = Inl (APIError (ustr ''Connection error.''))
   \<and> APIError (ustr ''Connection error.'') \<noteq> JSONDecodeError
   \<and> snd (generate_batch_responses failing_client sample_loads sample_comments
              (ustr ''Mes bons plans'') [])
       = Inr [PStr placeholder, PStr placeholder]"
proof -
  have ne: "sample_comments \<noteq> []" by (simp add: sample_comments_def)
  have len: "length sample_comments = 2" by (simp add: sample_comments_def)
  have r: "replicate 2 (PStr placeholder) = [PStr placeholder, PStr placeholder]"
    by (simp add: numeral_2_eq_2)
  show ?thesis
    using call_failure_gives_placeholders [OF ne failing_client_try, of sample_loads
        "ustr ''Mes bons plans''" "[]"] ne len r
    by (simp add: failing_client_try)
qed

text \<open>
  C1, as the code has it. On a non-empty batch of N comments, when the completion succeeds
  and the decoder rejects the cleaned text, the parsing helper raises the decode error,
  and batch generation does not raise: the error is caught with every other and N
  placeholders are returned.
\<close>

theorem decode_failure_gives_placeholders:
  assumes "comments_data \<noteq> []"
    and "create self (batch_request self comments_data video_title hashtags)
         = Inr (Some content # rest)"
    and "clean_response_text (strip content) = Inr cleaned"
    and "loads cleaned = None"
  shows "parse_json_response loads (strip content) = Inl JSONDecodeError
         \<and> snd (generate_batch_responses self loads comments_data video_title hashtags)
             = Inr (replicate (length comments_data) (PStr placeholder))"
proof -
  have raised: "parse_json_response loads (strip content) = Inl JSONDecodeError"
    using assms(3,4) by (simp add: parse_json_response_def)
  then have "batch_try self loads comments_data video_title hashtags = Inl JSONDecodeError"
    using batch_try_text [OF assms(2)] by simp
  then have "snd (generate_batch_responses self loads comments_data video_title hashtags)
             = Inr (replicate (length comments_data) (PStr placeholder))"
    using batch_failure_degrades [OF assms(1)] by simp
  then show ?thesis using raised by simp
qed

lemma strip_bonjour: "strip (ustr ''Bonjour'') = ustr ''Bonjour''"
  by (simp add: strip_def ustr_def is_space_def)

lemma clean_bonjour: "clean_response_text (ustr ''Bonjour'') = Inr (ustr ''Bonjour'')"
  by (simp add: clean_response_text_def strip_def ustr_def is_space_def fence_def fence_json_def)

lemma bonjour_not_sample: "ustr ''Bonjour'' \<noteq> sample_json"
  by (simp add: sample_json_def ustr_def quoted_def)

lemma parse_bonjour:
  "parse_json_response sample_loads (ustr ''Bonjour'') = Inl JSONDecodeError"
  by (simp add: parse_json_response_def clean_bonjour sample_loads_def bonjour_not_sample)


lemma answering_client_create:
  "create (answering_client content) request = Inr (Some content # [])"
  by (simp add: answering_client_def)

lemma sample_comments_ne: "sample_comments \<noteq> []"
  by (simp add: sample_comments_def)

lemma sample_comments_length: "length sample_comments = 2"
  by (simp add: sample_comments_def)

lemma replicate_two: "replicate 2 x = [x, x]"
  by (simp add: numeral_2_eq_2)

text \<open>
  C1 as stated fails: the client answers \<open>Bonjour\<close>, which is no JSON; parsing raises
  the decode error, and batch generation returns two placeholders instead of raising.
\<close>

theorem decode_failure_raises_counterexample:
  "parse_json_response sample_loads (strip (ustr ''Bonjour'')) = Inl JSONDecodeError
   \<and> snd (generate_batch_responses (answering_client (ustr ''Bonjour'')) sample_loads
              sample_comments (ustr ''Mes bons plans'') [])
       = Inr [PStr placeholder, PStr placeholder]"
proof -
  have p: "parse_json_response sample_loads (strip (ustr ''Bonjour'')) = Inl JSONDecodeError"
    by (simp add: strip_bonjour parse_bonjour)
  have t: "batch_try (answering_client (ustr ''Bonjour'')) sample_loads sample_comments
             (ustr ''Mes bons plans'') [] = Inl JSONDecodeError"
    using batch_try_text [OF answering_client_create] p by simp
  show ?thesis
    using batch_failure_degrades [OF sample_comments_ne t] p
    by (simp add: sample_comments_length replicate_two)
qed

lemma strip_fenced_greeting: "strip fenced_greeting = fenced_greeting"
  by (simp add: strip_def fenced_greeting_def ustr_def is_space_def)

lemma clean_fenced_greeting: "clean_response_text fenced_greeting = Inr (ustr ''Bonjour'')"
  by (simp add: clean_response_text_def strip_fenced_greeting)
     (simp add: fenced_greeting_def fence_def fence_json_def ustr_def split_py_def
        py_index_def strip_def is_space_def)

lemma sample_loads_bonjour: "sample_loads (ustr ''Bonjour'') = None"
  by (simp add: sample_loads_def bonjour_not_sample)

lemma clean_stripped_fenced_greeting:
  "clean_response_text (strip fenced_greeting) = Inr (ustr ''Bonjour'')"
  by (simp add: strip_fenced_greeting clean_fenced_greeting)

theorem decode_failure_gives_placeholders_witness:
  "sample_comments \<noteq> []
   \<and> create (answering_client fenced_greeting)
        (batch_request (answering_client fenced_greeting) sample_comments
           (ustr ''Mes bons plans'') [])
       = Inr [Some fenced_greeting]
   \<and> clean_response_text (strip fenced_greeting) = Inr (ustr ''Bonjour'')
   \<and> sample_loads (ustr ''Bonjour'') = None
   \<and> parse_json_response sample_loads (strip fenced_greeting) = Inl JSONDecodeError
   \<and> snd (generate_batch_responses (answering_client fenced_greeting) sample_loads
              sample_comments (ustr ''Mes bons plans'') [])
       = Inr [PStr placeholder, PStr placeholder]"
  using decode_failure_gives_placeholders [where loads = sample_loads
      and cleaned = "ustr ''Bonjour''", OF sample_comments_ne answering_client_create
      clean_stripped_fenced_greeting sample_loads_bonjour]
    sample_comments_ne clean_stripped_fenced_greeting sample_loads_bonjour
  by (simp add: answering_client_create sample_comments_length replicate_two)

lemma map_raise_total:
  assumes "\<forall>x\<in>set xs. \<exists>y. f x = Inr y"
  shows "\<exists>ys. map_raise f xs = Inr ys \<and> length ys = length xs \<and> map f xs = map Inr ys"
  using assms
proof (induction xs)
  case Nil
  then show ?case by simp
next
  case (Cons x xs)
  then obtain y where y: "f x = Inr y" by auto
  from Cons obtain ys where ys: "map_raise f xs = Inr ys" "length ys = length xs"
    "map f xs = map Inr ys" by auto
  have "map_raise f (x # xs) = Inr (y # ys)" using y ys by simp
  moreover have "length (y # ys) = length (x # xs)" using ys by simp
  moreover have "map f (x # xs) = map Inr (y # ys)" using y ys by simp
  ultimately show ?case by blast
qed

lemma item_response_dict:
  "\<exists>y. item_response (PDict entries) = Inr y"
  by (simp add: item_response_def)

lemma parse_well_formed:
  assumes "clean_response_text response_text = Inr cleaned"
    and "loads cleaned = Some (PDict kvs)"
    and "map_of kvs (ustr ''responses'') = Some (PList items)"
  shows "parse_json_response loads response_text = map_raise item_response items"
  using assms by (simp add: parse_json_response_def)

text \<open>
  What holds of well-formed output. On a non-empty batch, when the completion succeeds
  and the text left by the fence removal decodes to an object whose \<open>responses\<close> array
  holds M objects, batch generation returns M replies, the reply of each item in array
  order, whatever the number of comments.
\<close>

theorem well_formed_output_returned_whole:
  assumes "comments_data \<noteq> []"
    and "create self (batch_request self comments_data video_title hashtags)
         = Inr (Some content # rest)"
    and "clean_response_text (strip content) = Inr cleaned"
    and "loads cleaned = Some (PDict kvs)"
    and "map_of kvs (ustr ''responses'') = Some (PList items)"
    and "\<forall>item\<in>set items. \<exists>entries. item = PDict entries"
  shows "\<exists>replies.
           snd (generate_batch_responses self loads comments_data video_title hashtags)
             = Inr replies
           \<and> length replies = length items
           \<and> map item_response items = map Inr replies"
proof -
  have "\<forall>item\<in>set items. \<exists>y. item_response item = Inr y"
    using assms(6) item_response_dict by auto
  then obtain replies where r: "map_raise item_response items = Inr replies"
    "length replies = length items" "map item_response items = map Inr replies"
    using map_raise_total [of items item_response] by blast
  have "batch_try self loads comments_data video_title hashtags = Inr replies"
    using batch_try_text [OF assms(2)] parse_well_formed [where loads = loads, OF assms(3,4,5)] r(1) by simp
  then have "snd (generate_batch_responses self loads comments_data video_title hashtags)
             = Inr replies"
    using batch_success_passes [OF assms(1)] by simp
  then show ?thesis using r(2,3) by blast
qed

lemma strip_sample_fenced:
  "strip sample_fenced = ustr ''```json'' @ [10] @ sample_json @ [10] @ ustr ''```''"
  by (simp add: strip_def sample_fenced_def sample_json_def ustr_def quoted_def is_space_def)

lemma clean_sample_fenced: "clean_response_text (strip sample_fenced) = Inr sample_json"
  unfolding strip_sample_fenced
  by (simp add: clean_response_text_def sample_json_def ustr_def quoted_def fence_def
        fence_json_def split_py_def py_index_def strip_def is_space_def)

lemma sample_items_dicts: "\<forall>item\<in>set sample_items. \<exists>entries. item = PDict entries"
  by (simp add: sample_items_def)

lemma sample_loads_json:
  "sample_loads sample_json = Some (PDict [(ustr ''responses'', PList sample_items)])"
  by (simp add: sample_loads_def sample_parsed_def sample_items_def)

lemma sample_item_responses:
  "map item_response sample_items
   = [Inr (PStr (ustr ''Coucou Fatima'')), Inr (PStr (ustr ''Hello'')),
      Inr (PStr (ustr ''Hello! Merci ''))]"
  by (simp add: sample_items_def item_response_def ustr_def)

theorem well_formed_output_returned_whole_witness:
  "length sample_comments = 2
   \<and> clean_response_text (strip sample_fenced) = Inr sample_json
   \<and> sample_loads sample_json = Some (PDict [(ustr ''responses'', PList sample_items)])
   \<and> length sample_items = 3
   \<and> snd (generate_batch_responses (answering_client sample_fenced) sample_loads
              sample_comments (ustr ''Mes bons plans'') [])
       = Inr [PStr (ustr ''Coucou Fatima''), PStr (ustr ''Hello''),
              PStr (ustr ''Hello! Merci '')]"
proof -
  have m: "map_of [(ustr ''responses'', PList sample_items)] (ustr ''responses'')
           = Some (PList sample_items)"
    by simp
  obtain replies where r:
    "snd (generate_batch_responses (answering_client sample_fenced) sample_loads
            sample_comments (ustr ''Mes bons plans'') []) = Inr replies"
    "map item_response sample_items = map Inr replies"
    using well_formed_output_returned_whole [where loads = sample_loads,
        OF sample_comments_ne answering_client_create clean_sample_fenced
        sample_loads_json m sample_items_dicts]
    by blast
  have "map Inr replies = map item_response sample_items"
    using r(2) by (rule sym)
  also have "\<dots> = map Inr [PStr (ustr ''Coucou Fatima''), PStr (ustr ''Hello''),
                             PStr (ustr ''Hello! Merci '')]"
    by (simp add: sample_item_responses)
  finally have "replies = [PStr (ustr ''Coucou Fatima''), PStr (ustr ''Hello''),
                        PStr (ustr ''Hello! Merci '')]"
    by (simp only: inj_map_eq_map [OF inj_Inr])
  then show ?thesis
    using r(1) clean_sample_fenced sample_loads_json sample_comments_length
    by (simp add: sample_items_def)
qed

lemma backtick_json_value:
  "backtick_json
   = [123, 34, 114, 101, 115, 112, 111, 110, 115, 101, 115, 34, 58, 32, 91, 123, 34, 99, 104,
      97, 116, 103, 112, 116, 95, 114, 101, 115, 112, 111, 110, 115, 101, 34, 58, 32, 34, 97,
      96, 96, 96, 98, 34, 125, 93, 125]"
  by (simp add: backtick_json_def ustr_def quoted_def)

lemma strip_backtick_json: "strip backtick_json = backtick_json"
  by (simp add: strip_def backtick_json_value is_space_def)

lemma clean_backtick_json:
  "clean_response_text (strip backtick_json) = Inr (ustr ''b'' @ [34] @ ustr ''}]}'')"
  unfolding strip_backtick_json
  by (simp add: clean_response_text_def backtick_json_value fence_def fence_json_def ustr_def
        split_py_def py_index_def strip_def is_space_def)

lemma backtick_fragment_rejected:
  "backtick_loads (ustr ''b'' @ [34] @ ustr ''}]}'') = None"
  by (simp add: backtick_loads_def backtick_json_value ustr_def)

text \<open>
  C6 fails on the code. The client answers the well-formed object
  \<open>{"responses": [{"chatgpt_response": "a```b"}]}\<close>, unfenced, whose \<open>responses\<close> array
  holds one object. The text contains a fence, so the fence removal cuts it inside the
  reply and hands the decoder the fragment \<open>b"}]}\<close>; the decode error is caught, and
  the batch of two comments returns two placeholders, not the one reply.
\<close>

theorem fence_inside_reply_loses_replies:
  "backtick_loads backtick_json
   = Some (PDict [(ustr ''responses'',
                   PList [PDict [(ustr ''chatgpt_response'', PStr (ustr ''a```b''))]])])
   \<and> clean_response_text (strip backtick_json) = Inr (ustr ''b'' @ [34] @ ustr ''}]}'')
   \<and> backtick_loads (ustr ''b'' @ [34] @ ustr ''}]}'') = None
   \<and> snd (generate_batch_responses (answering_client backtick_json) backtick_loads
              sample_comments (ustr ''Mes bons plans'') [])
       = Inr [PStr placeholder, PStr placeholder]"
proof -
  have decoded: "backtick_loads backtick_json
     = Some (PDict [(ustr ''responses'',
                     PList [PDict [(ustr ''chatgpt_response'', PStr (ustr ''a```b''))]])])"
    by (simp add: backtick_loads_def backtick_parsed_def)
  have "parse_json_response backtick_loads (strip backtick_json) = Inl JSONDecodeError"
    using clean_backtick_json backtick_fragment_rejected
    by (simp add: parse_json_response_def)
  then have "batch_try (answering_client backtick_json) backtick_loads sample_comments
               (ustr ''Mes bons plans'') [] = Inl JSONDecodeError"
    using batch_try_text [OF answering_client_create] by simp
  then have "snd (generate_batch_responses (answering_client backtick_json) backtick_loads
                    sample_comments (ustr ''Mes bons plans'') [])
             = Inr [PStr placeholder, PStr placeholder]"
    using batch_failure_degrades [OF sample_comments_ne]
    by (simp add: sample_comments_length replicate_two)
  then show ?thesis
    using decoded clean_backtick_json backtick_fragment_rejected by simp
qed

section \<open>Moderation and publication: properties\<close>

lemma named_row_is_read:
  "c \<in> set tbl \<Longrightarrow> col_id c \<in> set ids \<Longrightarrow> c \<in> set (get_comments_by_ids tbl ids)"
  by (simp add: get_comments_by_ids_def)

text \<open>
  C2. A publish request that names a stored comment whose status is not \<open>validated\<close> is
  rejected whole: the endpoint raises, no background task is queued, and the state,
  every row's status included, is what it was.
\<close>

theorem publish_rejects_unvalidated:
  assumes "c \<in> set (comments st)"
    and "col_id c \<in> set (comment_ids publish_data)"
    and "col_status c \<noteq> ustr ''validated''"
  shows "publish_comments st publish_data = (Inl (HTTPException 500), st)"
proof -
  have "c \<in> set (filter (\<lambda>c. col_status c \<noteq> ustr ''validated'')
                   (get_comments_by_ids (comments st) (comment_ids publish_data)))"
    using assms by (simp add: named_row_is_read)
  then have "filter (\<lambda>c. col_status c \<noteq> ustr ''validated'')
               (get_comments_by_ids (comments st) (comment_ids publish_data)) \<noteq> []"
    by (metis empty_iff list.set(1))
  then show ?thesis
    by (simp add: publish_comments_def Let_def reraise_500_def)
qed

lemma published_not_validated: "ustr ''published'' \<noteq> ustr ''validated''"
  by (simp add: ustr_def)

theorem publish_rejects_unvalidated_witness:
  "sample_row 2 (ustr ''published'') \<in> set (comments sample_state)
   \<and> col_id (sample_row 2 (ustr ''published'')) \<in> set [1, 2, 3]
   \<and> col_status (sample_row 2 (ustr ''published'')) \<noteq> ustr ''validated''
   \<and> publish_comments sample_state \<lparr>comment_ids = [1, 2, 3], account_id = 1\<rparr>
       = (Inl (HTTPException 500), sample_state)"
proof -
  have a: "sample_row 2 (ustr ''published'') \<in> set (comments sample_state)"
    by (simp add: sample_state_def)
  have b: "col_id (sample_row 2 (ustr ''published''))
           \<in> set (comment_ids \<lparr>comment_ids = [1, 2, 3], account_id = 1\<rparr>)"
    by (simp add: sample_row_def)
  have c: "col_status (sample_row 2 (ustr ''published'')) \<noteq> ustr ''validated''"
    by (simp add: sample_row_def published_not_validated)
  show ?thesis
    using publish_rejects_unvalidated [OF a b c] a b c by simp
qed

lemma find_after_update:
  assumes "\<And>c. col_id (f c) = col_id c"
  shows "find (\<lambda>c. col_id c = cid) (map f tbl) = map_option f (find (\<lambda>c. col_id c = cid) tbl)"
  using assms by (induction tbl) simp_all

lemma get_after_update_status:
  assumes "get_comment tbl cid = Some c"
  shows "get_comment (update_comment_status now tbl cid status) cid
         = Some (c\<lparr>col_status := status, col_updated_at := now\<rparr>)"
proof -
  let ?f = "\<lambda>c. if col_id c = cid then c\<lparr>col_status := status, col_updated_at := now\<rparr> else c"
  have id: "\<And>c. col_id (?f c) = col_id c" by simp
  have "col_id c = cid"
    using assms by (auto simp: get_comment_def find_Some_iff)
  then show ?thesis
    using assms find_after_update [of ?f cid tbl, OF id]
    by (simp add: get_comment_def update_comment_status_def)
qed

lemma get_after_update_response:
  assumes "get_comment tbl cid = Some c"
  shows "get_comment (update_comment_response now tbl cid new_response status) cid
         = Some (c\<lparr>col_ai_response := new_response, col_status := status,
                    col_updated_at := now\<rparr>)"
proof -
  let ?f = "\<lambda>c. if col_id c = cid
                 then c\<lparr>col_ai_response := new_response, col_status := status,
                        col_updated_at := now\<rparr>
                 else c"
  have id: "\<And>c. col_id (?f c) = col_id c" by simp
  have "col_id c = cid"
    using assms by (auto simp: get_comment_def find_Some_iff)
  then show ?thesis
    using assms find_after_update [of ?f cid tbl, OF id]
    by (simp add: get_comment_def update_comment_response_def)
qed

lemma action_names_differ:
  "ustr ''reject'' \<noteq> ustr ''validate''"
  "ustr ''modify'' \<noteq> ustr ''validate''"
  "ustr ''modify'' \<noteq> ustr ''reject''"
  by (simp_all add: ustr_def)

lemma validate_comment_validate:
  assumes "get_comment (comments st) cid = Some c"
  shows "validate_comment now st
           \<lparr>comment_id = cid, action = ustr ''validate'', modified_response = m\<rparr>
         = (Inr \<lparr>answer_status = ustr ''success'', answer_comment_id = cid,
                 answer_action = ustr ''validate''\<rparr>,
            st\<lparr>comments := update_comment_status now (comments st) cid (ustr ''validated'')\<rparr>)"
  using assms by (simp add: validate_comment_def reraise_500_def)

lemma validate_comment_reject:
  assumes "get_comment (comments st) cid = Some c"
  shows "validate_comment now st
           \<lparr>comment_id = cid, action = ustr ''reject'', modified_response = m\<rparr>
         = (Inr \<lparr>answer_status = ustr ''success'', answer_comment_id = cid,
                 answer_action = ustr ''reject''\<rparr>,
            st\<lparr>comments := update_comment_status now (comments st) cid (ustr ''rejected'')\<rparr>)"
  using assms by (simp add: validate_comment_def reraise_500_def action_names_differ)

lemma validate_comment_modify:
  assumes "get_comment (comments st) cid = Some c" and "t \<noteq> []"
  shows "validate_comment now st
           \<lparr>comment_id = cid, action = ustr ''modify'', modified_response = Some t\<rparr>
         = (Inr \<lparr>answer_status = ustr ''success'', answer_comment_id = cid,
                 answer_action = ustr ''modify''\<rparr>,
            st\<lparr>comments := update_comment_response now (comments st) cid t
                              (ustr ''validated'')\<rparr>)"
  using assms by (simp add: validate_comment_def reraise_500_def action_names_differ)

text \<open>
  C7. For a stored comment \<open>c\<close>, whatever its status, the moderation endpoint succeeds:
  \<open>validate\<close> and \<open>reject\<close> overwrite the status, and \<open>modify\<close> with a non-empty text
  overwrites the reply text and the status in one update.
\<close>

theorem moderation_overwrites_any_status:
  assumes "get_comment (comments st) cid = Some c"
  shows "(let r = validate_comment now st
                    \<lparr>comment_id = cid, action = ustr ''validate'', modified_response = m\<rparr>
          in fst r = Inr \<lparr>answer_status = ustr ''success'', answer_comment_id = cid,
                          answer_action = ustr ''validate''\<rparr>
             \<and> get_comment (comments (snd r)) cid
                 = Some (c\<lparr>col_status := ustr ''validated'', col_updated_at := now\<rparr>))
       \<and> (let r = validate_comment now st
                    \<lparr>comment_id = cid, action = ustr ''reject'', modified_response = m\<rparr>
          in fst r = Inr \<lparr>answer_status = ustr ''success'', answer_comment_id = cid,
                          answer_action = ustr ''reject''\<rparr>
             \<and> get_comment (comments (snd r)) cid
                 = Some (c\<lparr>col_status := ustr ''rejected'', col_updated_at := now\<rparr>))
       \<and> (t \<noteq> [] \<longrightarrow>
           (let r = validate_comment now st
                    \<lparr>comment_id = cid, action = ustr ''modify'', modified_response = Some t\<rparr>
            in fst r = Inr \<lparr>answer_status = ustr ''success'', answer_comment_id = cid,
                            answer_action = ustr ''modify''\<rparr>
               \<and> get_comment (comments (snd r)) cid
                   = Some (c\<lparr>col_ai_response := t, col_status := ustr ''validated'',
                              col_updated_at := now\<rparr>)))"
proof (intro conjI impI)
  show "let r = validate_comment now st
                  \<lparr>comment_id = cid, action = ustr ''validate'', modified_response = m\<rparr>
        in fst r = Inr \<lparr>answer_status = ustr ''success'', answer_comment_id = cid,
                        answer_action = ustr ''validate''\<rparr>
           \<and> get_comment (comments (snd r)) cid
               = Some (c\<lparr>col_status := ustr ''validated'', col_updated_at := now\<rparr>)"
    by (simp add: validate_comment_validate [OF assms] get_after_update_status [OF assms])
next
  show "let r = validate_comment now st
                  \<lparr>comment_id = cid, action = ustr ''reject'', modified_response = m\<rparr>
        in fst r = Inr \<lparr>answer_status = ustr ''success'', answer_comment_id = cid,
                        answer_action = ustr ''reject''\<rparr>
           \<and> get_comment (comments (snd r)) cid
               = Some (c\<lparr>col_status := ustr ''rejected'', col_updated_at := now\<rparr>)"
    by (simp add: validate_comment_reject [OF assms] get_after_update_status [OF assms])
next
  assume t: "t \<noteq> []"
  show "let r = validate_comment now st
                  \<lparr>comment_id = cid, action = ustr ''modify'', modified_response = Some t\<rparr>
        in fst r = Inr \<lparr>answer_status = ustr ''success'', answer_comment_id = cid,
                        answer_action = ustr ''modify''\<rparr>
           \<and> get_comment (comments (snd r)) cid
               = Some (c\<lparr>col_ai_response := t, col_status := ustr ''validated'',
                          col_updated_at := now\<rparr>)"
    by (simp add: validate_comment_modify [OF assms t] get_after_update_response [OF assms])
qed

lemma sample_get_published:
  "get_comment (comments sample_state) 2 = Some (sample_row 2 (ustr ''published''))"
  by (simp add: get_comment_def sample_state_def sample_row_def)

theorem moderation_overwrites_any_status_witness:
  "get_comment (comments sample_state) 2 = Some (sample_row 2 (ustr ''published''))
   \<and> get_comment (comments (snd (validate_comment 20 sample_state
        \<lparr>comment_id = 2, action = ustr ''validate'', modified_response = None\<rparr>))) 2
       = Some ((sample_row 2 (ustr ''published''))
                \<lparr>col_status := ustr ''validated'', col_updated_at := 20\<rparr>)
   \<and> get_comment (comments (snd (validate_comment 20 sample_state
        \<lparr>comment_id = 2, action = ustr ''reject'', modified_response = None\<rparr>))) 2
       = Some ((sample_row 2 (ustr ''published''))
                \<lparr>col_status := ustr ''rejected'', col_updated_at := 20\<rparr>)
   \<and> get_comment (comments (snd (validate_comment 20 sample_state
        \<lparr>comment_id = 2, action = ustr ''modify'',
         modified_response = Some (ustr ''Hello'')\<rparr>))) 2
       = Some ((sample_row 2 (ustr ''published''))
                \<lparr>col_ai_response := ustr ''Hello'', col_status := ustr ''validated'',
                 col_updated_at := 20\<rparr>)"
proof -
  have ne: "ustr ''Hello'' \<noteq> []" by (simp add: ustr_def)
  show ?thesis
    using moderation_overwrites_any_status [OF sample_get_published, of 20 None "ustr ''Hello''"]
      sample_get_published ne
    by (simp add: Let_def)
qed

text \<open>
  C10. On a stored comment, a \<open>modify\<close> without modified text (absent, or empty), and
  any action other than \<open>validate\<close>, \<open>reject\<close> and \<open>modify\<close>, is acknowledged as a
  success and leaves the state as it was.
\<close>

theorem moderation_without_effect:
  assumes "get_comment (comments st) (comment_id validation) = Some c"
    and "(action validation = ustr ''modify''
            \<and> (modified_response validation = None \<or> modified_response validation = Some []))
         \<or> (action validation \<noteq> ustr ''validate'' \<and> action validation \<noteq> ustr ''reject''
            \<and> action validation \<noteq> ustr ''modify'')"
  shows "validate_comment now st validation
         = (Inr \<lparr>answer_status = ustr ''success'',
                 answer_comment_id = comment_id validation,
                 answer_action = action validation\<rparr>,
            st)"
  using assms
  by (auto simp: validate_comment_def reraise_500_def action_names_differ)

lemma archive_is_no_action:
  "ustr ''archive'' \<noteq> ustr ''validate''"
  "ustr ''archive'' \<noteq> ustr ''reject''"
  "ustr ''archive'' \<noteq> ustr ''modify''"
  by (simp_all add: ustr_def)

theorem moderation_without_effect_witness:
  "get_comment (comments sample_state) 2 = Some (sample_row 2 (ustr ''published''))
   \<and> validate_comment 20 sample_state
        \<lparr>comment_id = 2, action = ustr ''modify'', modified_response = None\<rparr>
       = (Inr \<lparr>answer_status = ustr ''success'', answer_comment_id = 2,
               answer_action = ustr ''modify''\<rparr>,
          sample_state)
   \<and> validate_comment 20 sample_state
        \<lparr>comment_id = 2, action = ustr ''archive'',
         modified_response = Some (ustr ''Hello'')\<rparr>
       = (Inr \<lparr>answer_status = ustr ''success'', answer_comment_id = 2,
               answer_action = ustr ''archive''\<rparr>,
          sample_state)"
  using moderation_without_effect [of sample_state
      "\<lparr>comment_id = 2, action = ustr ''modify'', modified_response = None\<rparr>"
      "sample_row 2 (ustr ''published'')" 20]
    moderation_without_effect [of sample_state
      "\<lparr>comment_id = 2, action = ustr ''archive'', modified_response = Some (ustr ''Hello'')\<rparr>"
      "sample_row 2 (ustr ''published'')" 20]
    sample_get_published
  by (simp add: archive_is_no_action)

section \<open>Replying: properties\<close>

lemma reply_reaches_submit:
  assumes "find_target uname (comment_blocks p) = Some blk"
    and "reply_button blk = Some rb"
    and "find_reply_input p = Some ri"
  shows "reply_to_comment p video_url uname reply_text =
         (let typed = (if current_url p \<noteq> video_url then [Get video_url] else [])
                @ [ScrollIntoView rb, Click rb, ScrollIntoView ri, Click ri,
                   (if clipboard_available p then Paste ri reply_text
                    else SendKeys ri reply_text)]
          in if 2 \<le> length (publish_buttons p)
             then (Inr (), typed @ [ScrollIntoView (publish_buttons p ! 1),
                                    Click (publish_buttons p ! 1)])
             else (Inl (Exception (ustr ''Bouton publier non trouv'' @ [233])), typed))"
  using assms by (simp add: reply_to_comment_def Let_def)

lemma reply_fails_without_two_buttons:
  assumes "length (publish_buttons p) < 2"
  shows "\<exists>e. fst (reply_to_comment p video_url uname reply_text) = Inl e"
  using assms
  by (simp add: reply_to_comment_def Let_def split: option.splits)

text \<open>
  C8. When the reply reaches its submission (the target block, its reply button and the
  reply field were found): with two or more enabled submit controls the call succeeds
  and its last two actions scroll to and click the second control; with fewer than two
  it raises. With fewer than two the call fails in any case.
\<close>

theorem submit_clicks_second_control:
  "(find_target uname (comment_blocks p) = Some blk \<and> reply_button blk = Some rb
      \<and> find_reply_input p = Some ri \<and> 2 \<le> length (publish_buttons p)
     \<longrightarrow> reply_to_comment p video_url uname reply_text
         = (Inr (),
            (if current_url p \<noteq> video_url then [Get video_url] else [])
              @ [ScrollIntoView rb, Click rb, ScrollIntoView ri, Click ri,
                 (if clipboard_available p then Paste ri reply_text
                  else SendKeys ri reply_text),
                 ScrollIntoView (publish_buttons p ! 1), Click (publish_buttons p ! 1)]))
   \<and> (find_target uname (comment_blocks p) = Some blk \<and> reply_button blk = Some rb
        \<and> find_reply_input p = Some ri \<and> length (publish_buttons p) < 2
       \<longrightarrow> fst (reply_to_comment p video_url uname reply_text)
           = Inl (Exception (ustr ''Bouton publier non trouv'' @ [233])))
   \<and> (length (publish_buttons p) < 2
       \<longrightarrow> (\<exists>e. fst (reply_to_comment p video_url uname reply_text) = Inl e))"
proof (intro conjI impI)
  assume "find_target uname (comment_blocks p) = Some blk \<and> reply_button blk = Some rb
          \<and> find_reply_input p = Some ri \<and> 2 \<le> length (publish_buttons p)"
  then show "reply_to_comment p video_url uname reply_text
         = (Inr (),
            (if current_url p \<noteq> video_url then [Get video_url] else [])
              @ [ScrollIntoView rb, Click rb, ScrollIntoView ri, Click ri,
                 (if clipboard_available p then Paste ri reply_text
                  else SendKeys ri reply_text),
                 ScrollIntoView (publish_buttons p ! 1), Click (publish_buttons p ! 1)])"
    by (simp add: reply_reaches_submit Let_def)
next
  assume "find_target uname (comment_blocks p) = Some blk \<and> reply_button blk = Some rb
          \<and> find_reply_input p = Some ri \<and> length (publish_buttons p) < 2"
  then show "fst (reply_to_comment p video_url uname reply_text)
             = Inl (Exception (ustr ''Bouton publier non trouv'' @ [233]))"
    by (simp add: reply_reaches_submit Let_def)
next
  assume "length (publish_buttons p) < 2"
  then show "\<exists>e. fst (reply_to_comment p video_url uname reply_text) = Inl e"
    by (rule reply_fails_without_two_buttons)
qed

lemma sample_page_target:
  "find_target (ustr ''user_1'') (comment_blocks (sample_page buttons))
   = Some (sample_block (ustr ''Autre'') (ustr ''Bonjour''))"
  by (simp add: sample_page_def sample_block_def ustr_def)

lemma sample_page_button:
  "reply_button (sample_block (ustr ''Autre'') (ustr ''Bonjour'')) = Some 7"
  by (simp add: sample_block_def)

lemma sample_page_input: "find_reply_input (sample_page buttons) = Some 8"
  by (simp add: find_reply_input_def sample_page_def)

theorem submit_clicks_second_control_witness:
  "reply_to_comment (sample_page [5, 6]) (ustr ''https://www.tiktok.com/'') (ustr ''user_1'')
     (ustr ''Coucou'')
   = (Inr (), [ScrollIntoView 7, Click 7, ScrollIntoView 8, Click 8, Paste 8 (ustr ''Coucou''),
               ScrollIntoView 6, Click 6])
   \<and> fst (reply_to_comment (sample_page [5]) (ustr ''https://www.tiktok.com/'')
            (ustr ''user_1'') (ustr ''Coucou''))
     = Inl (Exception (ustr ''Bouton publier non trouv'' @ [233]))"
  using submit_clicks_second_control [of "ustr ''user_1''" "sample_page [5, 6]"
      "sample_block (ustr ''Autre'') (ustr ''Bonjour'')" 7 8 "ustr ''https://www.tiktok.com/''"
      "ustr ''Coucou''"]
    submit_clicks_second_control [of "ustr ''user_1''" "sample_page [5]"
      "sample_block (ustr ''Autre'') (ustr ''Bonjour'')" 7 8 "ustr ''https://www.tiktok.com/''"
      "ustr ''Coucou''"]
    sample_page_target sample_page_button sample_page_input
  by (simp add: sample_page_def)

section \<open>Extraction: properties\<close>

lemma strip_of_stripped:
  assumes "stripped s"
  shows "strip s = s"
proof (cases s)
  case Nil
  then show ?thesis by (simp add: strip_def)
next
  case (Cons x xs)
  then have h: "\<not> is_space (hd s)" and l: "\<not> is_space (last s)"
    using assms by (auto simp: stripped_def)
  have a: "dropWhile is_space s = s"
    using Cons h by simp
  have "s = butlast s @ [last s]" using Cons by simp
  then have r: "rev s = last s # rev (butlast s)"
    by (metis rev.simps(2) rev_rev_ident rev_swap)
  have b: "dropWhile is_space (rev s) = rev s"
    unfolding r using l by simp
  show ?thesis by (simp add: strip_def a b)
qed

lemma dropWhile_snoc:
  "\<not> P x \<Longrightarrow> dropWhile P (ys @ [x]) = dropWhile P ys @ [x]"
  by (induction ys) auto

lemma strip_keeps_front:
  assumes "\<not> is_space x"
  shows "strip (x # xs) = x # rev (dropWhile is_space (rev xs))"
  using assms by (simp add: strip_def dropWhile_snoc)

lemma stripped_strip: "stripped (strip s)"
proof -
  define t where "t = dropWhile is_space s"
  define d where "d = dropWhile is_space (rev t)"
  have sd: "strip s = rev d"
    by (simp add: strip_def d_def t_def)
  show ?thesis
  proof (cases "d = []")
    case True
    then show ?thesis by (simp add: sd stripped_def)
  next
    case False
    have "\<not> is_space (hd d)"
      using False hd_dropWhile [of is_space "rev t"] by (simp add: d_def)
    then have l: "\<not> is_space (last (rev d))"
      using False by (simp add: last_rev)
    have "rev t = takeWhile is_space (rev t) @ d"
      by (simp add: d_def)
    then have "last (rev t) = last d"
      using False by (metis last_appendR)
    moreover have tne: "t \<noteq> []"
      using False by (auto simp: d_def)
    ultimately have "last d = hd t"
      by (simp add: last_rev)
    moreover have "\<not> is_space (hd t)"
      using tne hd_dropWhile [of is_space s] by (simp add: t_def)
    ultimately have h: "\<not> is_space (hd (rev d))"
      using False by (simp add: hd_rev)
    show ?thesis using h l by (simp add: sd stripped_def)
  qed
qed

lemma lower_cp_space: "is_space (lower_cp c) = is_space c"
  by (simp add: is_space_def lower_cp_def)

lemma strip_lower: "strip (lower s) = lower (strip s)"
proof -
  have c: "is_space \<circ> lower_cp = is_space"
    by (rule ext) (simp add: lower_cp_space)
  show ?thesis
    by (simp add: strip_def lower_def rev_map dropWhile_map c)
qed

lemma lower_excluded:
  "lower excluded_username = 115 # (ustr ''oeur bonplan '' @ [127872])"
  by (simp add: lower_def lower_cp_def excluded_username_def ustr_def)

lemma test_on_stripped:
  "(strip (lower (strip t)) = lower excluded_username)
   = (lower (strip t) = lower excluded_username)"
  by (simp add: strip_lower strip_of_stripped [OF stripped_strip])

lemma test_on_handle:
  "(strip (lower (ustr ''@'' @ h)) = lower excluded_username)
   = (lower (ustr ''@'' @ h) = lower excluded_username)"
proof -
  have "lower (ustr ''@'' @ h) = 64 # lower h"
    by (simp add: lower_def lower_cp_def ustr_def)
  moreover have "\<not> is_space 64" by (simp add: is_space_def)
  ultimately show ?thesis
    by (simp add: strip_keeps_front lower_excluded)
qed

lemma test_on_link:
  "(strip (lower (username_from_link a)) = lower excluded_username)
   = (lower (username_from_link a) = lower excluded_username)"
  by (simp add: username_from_link_def test_on_stripped test_on_handle split: option.splits)

lemma test_on_empty:
  "(strip (lower []) = lower excluded_username) = (lower [] = lower excluded_username)"
  using test_on_stripped [of "[]"] by (simp add: strip_def)

lemma test_on_resolved:
  "(strip (lower (resolve_username b)) = lower excluded_username)
   = (lower (resolve_username b) = lower excluded_username)"
  by (simp add: resolve_username_def Let_def test_on_stripped test_on_link test_on_empty
      split: option.splits)


lemma extract_loop_shape:
  "map comment_element (extract_loop bs acc)
   = map comment_element acc
     @ filter (\<lambda>b. comment_text_element b \<noteq> None
                    \<and> lower (resolve_username b) \<noteq> lower excluded_username) bs"
proof (induction bs arbitrary: acc)
  case Nil
  then show ?case by simp
next
  case (Cons b bs)
  show ?case
  proof (cases "comment_text_element b")
    case None
    then show ?thesis by (simp add: Cons.IH)
  next
    case (Some t)
    then show ?thesis
      by (simp add: Cons.IH Let_def test_on_resolved)
  qed
qed

lemma extract_loop_usernames:
  assumes "\<forall>d\<in>set acc. username d = resolve_username (comment_element d)"
  shows "\<forall>d\<in>set (extract_loop bs acc). username d = resolve_username (comment_element d)"
  using assms
proof (induction bs arbitrary: acc)
  case Nil
  then show ?case by simp
next
  case (Cons b bs)
  show ?case
  proof (cases "comment_text_element b")
    case None
    then show ?thesis using Cons by simp
  next
    case (Some t)
    have ext: "\<forall>d\<in>set (acc @ [\<lparr>username = resolve_username b, comment_text = strip t,
                                    comment_element = b\<rparr>]).
                 username d = resolve_username (comment_element d)"
      using Cons.prems by simp
    have appended: "\<forall>d\<in>set (extract_loop bs
                              (acc @ [\<lparr>username = resolve_username b, comment_text = strip t,
                                       comment_element = b\<rparr>])).
                      username d = resolve_username (comment_element d)"
      by (rule Cons.IH [OF ext])
    have skipped: "\<forall>d\<in>set (extract_loop bs acc).
                     username d = resolve_username (comment_element d)"
      by (rule Cons.IH [OF Cons.prems])
    show ?thesis
      using Some appended skipped by (simp add: Let_def)
  qed
qed

lemma longer_is_not_excluded:
  assumes "length excluded_username < length u"
  shows "lower u \<noteq> lower excluded_username"
proof
  assume "lower u = lower excluded_username"
  then have "length (lower u) = length (lower excluded_username)" by simp
  then show False using assms by (simp add: lower_def)
qed

text \<open>
  C5. The blocks kept by the extraction are, in page order, exactly the blocks with a
  comment text whose resolved identity differs from the excluded identity when both are
  lowered; each kept item carries the resolved identity of its block. So a block whose
  identity differs from the excluded one only in letter case is dropped, and a block
  with text whose identity contains the excluded one and is longer is kept.
\<close>

theorem self_filter_exact_ignoring_case:
  "map comment_element (extract_comments p)
   = filter (\<lambda>b. comment_text_element b \<noteq> None
                  \<and> lower (resolve_username b) \<noteq> lower excluded_username)
       (comment_blocks p)
   \<and> (\<forall>d\<in>set (extract_comments p). username d = resolve_username (comment_element d))
   \<and> (\<forall>b\<in>set (comment_blocks p).
         lower (resolve_username b) = lower excluded_username
         \<longrightarrow> b \<notin> set (map comment_element (extract_comments p)))
   \<and> (\<forall>b\<in>set (comment_blocks p).
         comment_text_element b \<noteq> None
         \<and> contains excluded_username (resolve_username b)
         \<and> length excluded_username < length (resolve_username b)
         \<longrightarrow> b \<in> set (map comment_element (extract_comments p)))"
proof -
  have shape: "map comment_element (extract_comments p)
     = filter (\<lambda>b. comment_text_element b \<noteq> None
                    \<and> lower (resolve_username b) \<noteq> lower excluded_username)
         (comment_blocks p)"
    using extract_loop_shape [of "comment_blocks p" "[]"] by (simp add: extract_comments_def)
  have names: "\<forall>d\<in>set (extract_comments p). username d = resolve_username (comment_element d)"
    using extract_loop_usernames [of "[]" "comment_blocks p"] by (simp add: extract_comments_def)
  have dropped: "\<forall>b\<in>set (comment_blocks p).
         lower (resolve_username b) = lower excluded_username
         \<longrightarrow> b \<notin> set (map comment_element (extract_comments p))"
    unfolding shape by simp
  have kept: "\<forall>b\<in>set (comment_blocks p).
         comment_text_element b \<noteq> None
         \<and> contains excluded_username (resolve_username b)
         \<and> length excluded_username < length (resolve_username b)
         \<longrightarrow> b \<in> set (map comment_element (extract_comments p))"
    unfolding shape using longer_is_not_excluded by simp
  show ?thesis using shape names dropped kept by blast
qed

lemma resolve_operator:
  "resolve_username operator_block = ustr ''Soeur BonPlan '' @ [127872]"
  by (simp add: resolve_username_def operator_block_def sample_block_def strip_def ustr_def
      is_space_def Let_def)

lemma resolve_fan:
  "resolve_username fan_block = ustr ''soeur bonplan '' @ [127872] @ ustr '' fan''"
  by (simp add: resolve_username_def fan_block_def sample_block_def strip_def ustr_def
      is_space_def Let_def)

lemma operator_same_ignoring_case:
  "lower (resolve_username operator_block) = lower excluded_username"
  by (simp add: resolve_operator lower_def lower_cp_def excluded_username_def ustr_def)

lemma fan_contains_operator:
  "contains excluded_username (resolve_username fan_block)
   \<and> length excluded_username < length (resolve_username fan_block)"
  by (simp add: resolve_fan excluded_username_def ustr_def)

lemma sample_thread_blocks:
  "comment_blocks sample_thread = [operator_block, fan_block]"
  by (simp add: sample_thread_def)

lemma fan_has_text: "comment_text_element fan_block \<noteq> None"
  by (simp add: fan_block_def sample_block_def)

lemma operator_has_text: "comment_text_element operator_block \<noteq> None"
  by (simp add: operator_block_def sample_block_def)

theorem self_filter_exact_ignoring_case_witness:
  "comment_blocks sample_thread = [operator_block, fan_block]
   \<and> resolve_username operator_block = ustr ''Soeur BonPlan '' @ [127872]
   \<and> resolve_username fan_block = ustr ''soeur bonplan '' @ [127872] @ ustr '' fan''
   \<and> map comment_element (extract_comments sample_thread) = [fan_block]"
proof -
  have "lower (resolve_username fan_block) \<noteq> lower excluded_username"
    using fan_contains_operator by (simp add: longer_is_not_excluded)
  then show ?thesis
    using self_filter_exact_ignoring_case [of sample_thread]
      operator_same_ignoring_case fan_has_text operator_has_text
    by (simp add: sample_thread_blocks resolve_operator resolve_fan)
qed

end
